theory Spec2Isabelle
  imports Main "HOL-Library.AList"
begin

section \<open>The tenant manager of \<^verbatim>\<open>scripts/tenant_manager.py\<close>\<close>

text \<open>
  The supervisor keeps a dictionary \<^verbatim>\<open>self.processes\<close> (tenant id to process record),
  mirrors it in one JSON file, and talks to the operating system: it asks whether a pid
  exists, looks up process groups, sends signals, sleeps, probes ports and spawns
  processes. The model passes the supervisor's state explicitly (\<open>world\<close>) and takes the
  operating system as a parameter (\<open>host\<close>): every answer of the host is a function of the
  number of host interactions made so far, so a host may answer the same question
  differently at different moments (a process that dies between two checks, a port that
  comes up). Whatever is proved for every \<open>host\<close> holds for every behaviour of the
  operating system. Python exceptions are values of \<open>exn\<close>, on the left of a sum.
\<close>

subsection \<open>Data model\<close>

type_synonym tenant_id = string

text \<open>
  The record \<^verbatim>\<open>start_tenant\<close> stores for a tenant (the dictionary with the keys
  \<^verbatim>\<open>pid, port, username, network_volume, started_at, env\<close>). \<^verbatim>\<open>started_at\<close> is
  the reading of \<^verbatim>\<open>time.time()\<close>; the model only stores and subtracts it, and
  takes it as an integer.
\<close>

record process_info =
  pid :: int
  port :: int
  username :: string
  network_volume :: string
  started_at :: int
  env :: "(string \<times> string) list"

text \<open>
  A Python dictionary keeps its keys in insertion order; the registry is an association
  list with the dictionary operations \<open>map_of\<close> (lookup), \<open>AList.update\<close>
  (\<^verbatim>\<open>d[k] = v\<close>: in place when the key is there, appended otherwise) and
  \<open>AList.delete\<close> (\<^verbatim>\<open>del d[k]\<close>).
\<close>

type_synonym registry = "(tenant_id \<times> process_info) list"

datatype exn =
    ProcessLookupError
  | PermissionError
  | OSError
  | TimeoutExpired
  | JSONDecodeError
  | RequestException

datatype signal = SIGTERM | SIGKILL

datatype write_outcome =
    Write_ok
  | Open_fails
  | Write_fails nat

datatype run_outcome =
    Exited int string string
  | Exceeded
  | Raised exn

text \<open>
  The host: what the operating system and the libraries answer. The first argument of
  every time-dependent field is the number of host interactions made before the call.
  \<open>killpg\<close> answers \<open>None\<close> when the signal was delivered and the exception otherwise;
  \<open>connect_ex\<close> answers the error number of \<^verbatim>\<open>socket.connect_ex\<close> (or the exception
  the socket calls raised), \<open>requests_get\<close> the status code of the response (or the
  exception \<^verbatim>\<open>requests.get\<close> raised: connection error, timeout);
  \<open>fs_write\<close> says how far \<^verbatim>\<open>open(file, 'w')\<close> followed by \<^verbatim>\<open>json.dump\<close> gets;
  \<open>shell_run\<close> says what the command given to \<^verbatim>\<open>subprocess.run\<close> does within the
  timeout passed. \<open>json_dump\<close> and \<open>json_load\<close> are the JSON library.
\<close>

record host =
  pid_exists :: "nat \<Rightarrow> int \<Rightarrow> bool"
  getpgid :: "nat \<Rightarrow> int \<Rightarrow> exn + int"
  killpg :: "nat \<Rightarrow> int \<Rightarrow> signal \<Rightarrow> exn option"
  connect_ex :: "nat \<Rightarrow> string \<Rightarrow> int \<Rightarrow> nat \<Rightarrow> exn + int"
  requests_get :: "nat \<Rightarrow> int \<Rightarrow> nat \<Rightarrow> exn + int"
  makedirs :: "nat \<Rightarrow> string \<Rightarrow> exn option"
  tenant_scripts :: "nat \<Rightarrow> string \<Rightarrow> exn option"
  popen :: "nat \<Rightarrow> string list \<Rightarrow> (string \<times> string) list \<Rightarrow> exn + int"
  time_now :: "nat \<Rightarrow> int"
  environ :: "(string \<times> string) list"
  fs_write :: "nat \<Rightarrow> write_outcome"
  fs_read :: "nat \<Rightarrow> exn option"
  shell_run :: "nat \<Rightarrow> string \<Rightarrow> nat \<Rightarrow> run_outcome"
  json_dump :: "registry \<Rightarrow> string"
  json_load :: "string \<Rightarrow> exn + registry"

text \<open>The calls the supervisor makes on the host, in the order it makes them.\<close>

datatype event =
    Killpg int signal
  | Sleep nat
  | Connect string int nat
  | HttpGet int nat
  | Makedirs string
  | TenantScripts string
  | Popen "string list" "(string \<times> string) list"
  | Cloudwatch tenant_id string
  | Run string nat
  | KillChild

text \<open>
  The supervisor's state: the dictionary in memory, the content of the registry file
  \<^verbatim>\<open>/tmp/comfyui_processes.json\<close> (\<open>None\<close> when there is no file), the calls made so
  far and their number.
\<close>

record world =
  processes :: registry
  disk :: "string option"
  trace :: "event list"
  clock :: nat

definition tick :: "world \<Rightarrow> world" where
  "tick w = w\<lparr>clock := Suc (clock w)\<rparr>"

definition emit :: "event \<Rightarrow> world \<Rightarrow> world" where
  "emit e w = w\<lparr>trace := trace w @ [e], clock := Suc (clock w)\<rparr>"

text \<open>Sequencing of steps that may raise: the first exception ends the sequence.\<close>

definition seq ::
  "(world \<Rightarrow> (exn + 'a) \<times> world) \<Rightarrow> ('a \<Rightarrow> world \<Rightarrow> (exn + 'b) \<times> world) \<Rightarrow>
   world \<Rightarrow> (exn + 'b) \<times> world" where
  "seq m f w = (case m w of (Inl e, w1) \<Rightarrow> (Inl e, w1) | (Inr a, w1) \<Rightarrow> f a w1)"

subsection \<open>Host calls\<close>

definition psutil_pid_exists :: "host \<Rightarrow> int \<Rightarrow> world \<Rightarrow> bool \<times> world" where
  "psutil_pid_exists h p w = (pid_exists h (clock w) p, tick w)"

definition os_getpgid :: "host \<Rightarrow> int \<Rightarrow> world \<Rightarrow> (exn + int) \<times> world" where
  "os_getpgid h p w = (getpgid h (clock w) p, tick w)"

definition os_killpg :: "host \<Rightarrow> int \<Rightarrow> signal \<Rightarrow> world \<Rightarrow> (exn + unit) \<times> world" where
  "os_killpg h g s w =
     ((case killpg h (clock w) g s of Some e \<Rightarrow> Inl e | None \<Rightarrow> Inr ()), emit (Killpg g s) w)"

definition time_sleep :: "nat \<Rightarrow> world \<Rightarrow> world" where
  "time_sleep n w = emit (Sleep n) w"

definition time_time :: "host \<Rightarrow> world \<Rightarrow> int \<times> world" where
  "time_time h w = (time_now h (clock w), tick w)"

definition os_makedirs :: "host \<Rightarrow> string \<Rightarrow> world \<Rightarrow> (exn + unit) \<times> world" where
  "os_makedirs h path w =
     ((case makedirs h (clock w) path of Some e \<Rightarrow> Inl e | None \<Rightarrow> Inr ()), emit (Makedirs path) w)"

definition subprocess_Popen ::
  "host \<Rightarrow> string list \<Rightarrow> (string \<times> string) list \<Rightarrow> world \<Rightarrow> (exn + int) \<times> world" where
  "subprocess_Popen h cmd tenant_env w = (popen h (clock w) cmd tenant_env, emit (Popen cmd tenant_env) w)"

subsection \<open>Process registry: \<^verbatim>\<open>save_processes\<close>, \<^verbatim>\<open>_cleanup_dead_processes\<close>, \<^verbatim>\<open>load_processes\<close>\<close>

text \<open>
  \<^verbatim>\<open>save_processes\<close> opens the registry file itself for writing, which empties it, and
  dumps the dictionary into it; every exception is logged and swallowed. When
  \<^verbatim>\<open>open\<close> raises the file is as it was; when a write raises after \<open>k\<close> characters
  the file holds those \<open>k\<close> characters.
\<close>

definition save_processes :: "host \<Rightarrow> world \<Rightarrow> world" where
  "save_processes h w =
     (case fs_write h (clock w) of
        Open_fails \<Rightarrow> tick w
      | Write_fails k \<Rightarrow> tick (w\<lparr>disk := Some (take k (json_dump h (processes w)))\<rparr>)
      | Write_ok \<Rightarrow> tick (w\<lparr>disk := Some (json_dump h (processes w))\<rparr>))"

text \<open>
  What the file holds when the supervisor itself dies during \<^verbatim>\<open>save_processes\<close>:
  at crash point \<open>0\<close> the file has not been opened yet; at crash point \<open>k + 1\<close>
  \<^verbatim>\<open>open(file, 'w')\<close> has emptied the file and \<open>k\<close> characters of the dump have
  reached it.
\<close>

fun save_crash :: "host \<Rightarrow> world \<Rightarrow> nat \<Rightarrow> string option" where
  "save_crash h w 0 = disk w"
| "save_crash h w (Suc k) = Some (take k (json_dump h (processes w)))"

text \<open>
  The first loop of \<^verbatim>\<open>_cleanup_dead_processes\<close>: the tenants whose pid is truthy and
  does not exist, with the clock after the checks (a pid of 0 is not looked up).
\<close>

fun dead_pods :: "host \<Rightarrow> registry \<Rightarrow> nat \<Rightarrow> tenant_id list \<times> nat" where
  "dead_pods h [] c = ([], c)"
| "dead_pods h ((pod_id, info) # rest) c =
     (if pid info \<noteq> 0 then
        (let (ds, c') = dead_pods h rest (Suc c)
         in (if \<not> pid_exists h c (pid info) then pod_id # ds else ds, c'))
      else dead_pods h rest c)"

definition cleanup_dead_processes :: "host \<Rightarrow> world \<Rightarrow> world" where
  "cleanup_dead_processes h w =
     (let (dead, c) = dead_pods h (processes w) (clock w);
          w1 = w\<lparr>processes := fold AList.delete dead (processes w), clock := c\<rparr>
      in if dead \<noteq> [] then save_processes h w1 else w1)"

definition load_processes :: "host \<Rightarrow> world \<Rightarrow> world" where
  "load_processes h w =
     (case disk w of
        None \<Rightarrow> w
      | Some s \<Rightarrow>
          (case fs_read h (clock w) of
             Some e \<Rightarrow> (tick w)\<lparr>processes := []\<rparr>
           | None \<Rightarrow>
               (case json_load h s of
                  Inl e \<Rightarrow> (tick w)\<lparr>processes := []\<rparr>
                | Inr r \<Rightarrow> cleanup_dead_processes h ((tick w)\<lparr>processes := r\<rparr>))))"

subsection \<open>Health prober: \<^verbatim>\<open>_is_port_open\<close>, \<^verbatim>\<open>_is_comfyui_healthy\<close>\<close>

definition is_port_open :: "host \<Rightarrow> string \<Rightarrow> int \<Rightarrow> nat \<Rightarrow> world \<Rightarrow> bool \<times> world" where
  "is_port_open h hostname prt timeout w =
     ((case connect_ex h (clock w) hostname prt timeout of
         Inl e \<Rightarrow> False
       | Inr result \<Rightarrow> result = 0),
      emit (Connect hostname prt timeout) w)"

definition is_comfyui_healthy :: "host \<Rightarrow> int \<Rightarrow> nat \<Rightarrow> world \<Rightarrow> bool \<times> world" where
  "is_comfyui_healthy h prt timeout w =
     (let (opened, w1) = is_port_open h ''localhost'' prt 2 w
      in if \<not> opened then (False, w1)
         else ((case requests_get h (clock w1) prt timeout of
                  Inl e \<Rightarrow> False
                | Inr status_code \<Rightarrow> status_code = 200),
               emit (HttpGet prt timeout) w1))"

subsection \<open>Process supervisor: \<^verbatim>\<open>_force_cleanup_tenant\<close>\<close>

text \<open>
  The inner \<^verbatim>\<open>try\<close> block of \<^verbatim>\<open>_force_cleanup_tenant\<close>: SIGTERM to the group of the
  pid, two seconds of sleep, and SIGKILL and one more second when the pid still exists.
\<close>

definition force_kill :: "host \<Rightarrow> int \<Rightarrow> world \<Rightarrow> (exn + unit) \<times> world" where
  "force_kill h p =
     seq (os_getpgid h p) (\<lambda>g.
     seq (os_killpg h g SIGTERM) (\<lambda>_ w1.
       let (still, w2) = psutil_pid_exists h p (time_sleep 2 w1)
       in if still then
            seq (os_getpgid h p) (\<lambda>g'.
            seq (os_killpg h g' SIGKILL) (\<lambda>_ w3. (Inr (), time_sleep 1 w3))) w2
          else (Inr (), w2)))"

text \<open>
  \<^verbatim>\<open>except ProcessLookupError: pass\<close> around a block: that exception ends the block
  and is dropped, every other one goes on.
\<close>

definition except_lookup :: "(exn + unit) \<times> world \<Rightarrow> (exn + unit) \<times> world" where
  "except_lookup r =
     (case r of
        (Inl e, w1) \<Rightarrow> if e = ProcessLookupError then (Inr (), w1) else (Inl e, w1)
      | (Inr u, w1) \<Rightarrow> (Inr u, w1))"

definition force_cleanup_tenant :: "host \<Rightarrow> tenant_id \<Rightarrow> process_info \<Rightarrow> world \<Rightarrow> world" where
  "force_cleanup_tenant h pod_id info w =
     (let p = pid info;
          (r, w1) =
            (if p \<noteq> 0 then
               (let (alive, w0) = psutil_pid_exists h p w
                in if alive then except_lookup (force_kill h p w0) else (Inr (), w0))
             else (Inr (), w))
      in case r of
           Inl e \<Rightarrow> w1
         | Inr _ \<Rightarrow>
             if map_of (processes w1) pod_id \<noteq> None
             then save_processes h (w1\<lparr>processes := AList.delete pod_id (processes w1)\<rparr>)
             else w1)"

subsection \<open>Process supervisor: \<^verbatim>\<open>start_tenant\<close>\<close>

datatype start_result =
    Already_running int int
  | Started int int string

text \<open>\<^verbatim>\<open>str(port)\<close>: the decimal digits, with a minus sign for a negative number.\<close>

fun digits :: "nat \<Rightarrow> string" where
  "digits n = (if n < 10 then [char_of (48 + n)] else digits (n div 10) @ [char_of (48 + n mod 10)])"

definition str :: "int \<Rightarrow> string" where
  "str i = (if i < 0 then CHR ''-'' # digits (nat (- i)) else digits (nat i))"

definition dict_update :: "(string \<times> string) list \<Rightarrow> (string \<times> string) list \<Rightarrow> (string \<times> string) list" where
  "dict_update d other = fold (\<lambda>(k, v). AList.update k v) other d"

text \<open>
  \<^verbatim>\<open>_setup_tenant_scripts\<close> creates the tenant's \<^verbatim>\<open>scripts\<close> directory and links or
  copies the shared shell scripts into it; \<^verbatim>\<open>_setup_cloudwatch_logging\<close> creates the
  log directory and runs the logging setup script, and swallows every exception. Both
  touch only the tenant's workspace; each is one call on the host here, the first of
  which may raise.
\<close>

definition setup_tenant_scripts :: "host \<Rightarrow> string \<Rightarrow> world \<Rightarrow> (exn + unit) \<times> world" where
  "setup_tenant_scripts h volume w =
     ((case tenant_scripts h (clock w) volume of Some e \<Rightarrow> Inl e | None \<Rightarrow> Inr ()),
      emit (TenantScripts volume) w)"

definition setup_cloudwatch_logging :: "host \<Rightarrow> tenant_id \<Rightarrow> string \<Rightarrow> world \<Rightarrow> world" where
  "setup_cloudwatch_logging h pod_id volume w = emit (Cloudwatch pod_id volume) w"

text \<open>
  The workspace of a tenant (\<^verbatim>\<open>env_vars.get('NETWORK_VOLUME', f'/workspace/{pod_id}')\<close>),
  the environment of its process (the supervisor's own, overlaid with the four tenant
  variables and then the caller's overrides) and the command that starts it.
\<close>

definition tenant_volume :: "tenant_id \<Rightarrow> (string \<times> string) list \<Rightarrow> string" where
  "tenant_volume pod_id env_vars =
     (case map_of env_vars ''NETWORK_VOLUME'' of
        None \<Rightarrow> ''/workspace/'' @ pod_id
      | Some v \<Rightarrow> v)"

definition tenant_environment ::
  "host \<Rightarrow> tenant_id \<Rightarrow> string \<Rightarrow> int \<Rightarrow> (string \<times> string) list \<Rightarrow> (string \<times> string) list" where
  "tenant_environment h pod_id user prt env_vars =
     dict_update (environ h)
       (dict_update
          [(''POD_ID'', pod_id), (''POD_USER_NAME'', user),
           (''NETWORK_VOLUME'', tenant_volume pod_id env_vars), (''COMFYUI_PORT'', str prt)]
          env_vars)"

definition start_command :: "string list" where
  "start_command = [''/bin/bash'', ''/scripts/start_tenant.sh'']"

text \<open>The part of \<^verbatim>\<open>start_tenant\<close> from \<^verbatim>\<open># Setup environment\<close> on.\<close>

definition spawn_tenant ::
  "host \<Rightarrow> tenant_id \<Rightarrow> string \<Rightarrow> int \<Rightarrow> (string \<times> string) list \<Rightarrow> world \<Rightarrow>
   (exn + start_result) \<times> world" where
  "spawn_tenant h pod_id user prt env_vars =
     (let volume = tenant_volume pod_id env_vars;
          tenant_env = tenant_environment h pod_id user prt env_vars
      in seq (os_makedirs h volume) (\<lambda>_.
         seq (setup_tenant_scripts h volume) (\<lambda>_.
         seq (subprocess_Popen h start_command tenant_env)
           (\<lambda>new_pid w1.
              let (now, w2) = time_time h w1;
                  info = \<lparr>pid = new_pid, port = prt, username = user,
                          network_volume = volume, started_at = now, env = env_vars\<rparr>;
                  w3 = save_processes h (w2\<lparr>processes := AList.update pod_id info (processes w2)\<rparr>);
                  w4 = setup_cloudwatch_logging h pod_id volume w3
              in (Inr (Started prt new_pid volume), w4)))))"

text \<open>
  The test \<^verbatim>\<open>psutil.pid_exists(existing_pid) and existing_port and
  self._is_comfyui_healthy(existing_port)\<close> of \<^verbatim>\<open>start_tenant\<close>: a port of 0 is
  falsy and is not probed.
\<close>

definition running_healthy :: "host \<Rightarrow> process_info \<Rightarrow> world \<Rightarrow> bool \<times> world" where
  "running_healthy h existing_info w =
     (let (alive, w1) = psutil_pid_exists h (pid existing_info) w
      in if alive \<and> port existing_info \<noteq> 0
         then is_comfyui_healthy h (port existing_info) 5 w1
         else (False, w1))"

definition start_tenant ::
  "host \<Rightarrow> tenant_id \<Rightarrow> string \<Rightarrow> int \<Rightarrow> (string \<times> string) list \<Rightarrow> world \<Rightarrow>
   (exn + start_result) \<times> world" where
  "start_tenant h pod_id user prt env_vars w =
     (case map_of (processes w) pod_id of
        None \<Rightarrow> spawn_tenant h pod_id user prt env_vars w
      | Some existing_info \<Rightarrow>
          (let (healthy, w2) = running_healthy h existing_info w
           in if healthy
              then (Inr (Already_running (port existing_info) (pid existing_info)), w2)
              else spawn_tenant h pod_id user prt env_vars
                     (force_cleanup_tenant h pod_id existing_info w2)))"

subsection \<open>Process supervisor: \<^verbatim>\<open>stop_tenant\<close>\<close>

datatype stop_result = Not_found | Not_running | Stopped

text \<open>
  The loop \<^verbatim>\<open>for _ in range(30): if not psutil.pid_exists(pid): break; time.sleep(1)\<close>,
  with the number of rounds left.
\<close>

fun wait_for_exit :: "host \<Rightarrow> int \<Rightarrow> nat \<Rightarrow> world \<Rightarrow> world" where
  "wait_for_exit h p 0 w = w"
| "wait_for_exit h p (Suc n) w =
     (if \<not> pid_exists h (clock w) p then tick w
      else wait_for_exit h p n (time_sleep 1 (tick w)))"

text \<open>The \<^verbatim>\<open>try\<close> block of \<^verbatim>\<open>stop_tenant\<close>.\<close>

definition graceful_shutdown :: "host \<Rightarrow> int \<Rightarrow> world \<Rightarrow> (exn + unit) \<times> world" where
  "graceful_shutdown h p =
     seq (os_getpgid h p) (\<lambda>g.
     seq (os_killpg h g SIGTERM) (\<lambda>_ w1.
       let (still, w2) = psutil_pid_exists h p (wait_for_exit h p 30 w1)
       in if still then
            seq (os_getpgid h p) (\<lambda>g'.
            seq (os_killpg h g' SIGKILL) (\<lambda>_ w3. (Inr (), time_sleep 2 w3))) w2
          else (Inr (), w2)))"

text \<open>\<^verbatim>\<open>del self.processes[pod_id]\<close> followed by \<^verbatim>\<open>self.save_processes()\<close>.\<close>

definition remove_record :: "host \<Rightarrow> tenant_id \<Rightarrow> world \<Rightarrow> world" where
  "remove_record h pod_id w = save_processes h (w\<lparr>processes := AList.delete pod_id (processes w)\<rparr>)"

definition stop_tenant :: "host \<Rightarrow> tenant_id \<Rightarrow> world \<Rightarrow> (exn + stop_result) \<times> world" where
  "stop_tenant h pod_id w =
     (case map_of (processes w) pod_id of
        None \<Rightarrow> (Inr Not_found, w)
      | Some info \<Rightarrow>
          (let p = pid info;
               (gone, w0) =
                 (if p = 0 then (True, w)
                  else (let (alive, w') = psutil_pid_exists h p w in (\<not> alive, w')))
           in if gone then (Inr Not_running, remove_record h pod_id w0)
              else (case except_lookup (graceful_shutdown h p w0) of
                      (Inl e, w1) \<Rightarrow> (Inl e, w1)
                    | (Inr _, w1) \<Rightarrow> (Inr Stopped, remove_record h pod_id w1))))"

subsection \<open>Process supervisor: \<^verbatim>\<open>get_tenant_info\<close>\<close>

datatype tenant_status = Healthy | Unhealthy | Dead

record tenant_info =
  ti_pod_id :: tenant_id
  ti_username :: string
  ti_port :: int
  ti_pid :: int
  ti_uptime :: int
  ti_network_volume :: string
  ti_status :: tenant_status
  ti_process_alive :: bool
  ti_service_healthy :: bool

fun classify :: "host \<Rightarrow> registry \<Rightarrow> world \<Rightarrow> tenant_info list \<times> world" where
  "classify h [] w = ([], w)"
| "classify h ((pod_id, info) # rest) w =
     (let (is_process_alive, w1) = psutil_pid_exists h (pid info) w;
          (is_service_healthy, w2) =
            (if is_process_alive then
               (if port info \<noteq> 0 then is_comfyui_healthy h (port info) 5 w1 else (False, w1))
             else (False, w1));
          status = (if is_process_alive \<and> is_service_healthy then Healthy
                    else if is_process_alive \<and> \<not> is_service_healthy then Unhealthy
                    else Dead);
          (now, w3) = time_time h w2;
          t = \<lparr>ti_pod_id = pod_id, ti_username = username info, ti_port = port info,
               ti_pid = pid info, ti_uptime = now - started_at info,
               ti_network_volume = network_volume info, ti_status = status,
               ti_process_alive = is_process_alive, ti_service_healthy = is_service_healthy\<rparr>;
          (ts, w4) = classify h rest w3
      in (t # ts, w4))"

definition get_tenant_info :: "host \<Rightarrow> world \<Rightarrow> tenant_info list \<times> world" where
  "get_tenant_info h w =
     (let w0 = cleanup_dead_processes h w in classify h (processes w0) w0)"

subsection \<open>Control surface: \<^verbatim>\<open>handle_start_request\<close>, \<^verbatim>\<open>handle_execute_request\<close>\<close>

text \<open>
  The body of a start request after \<^verbatim>\<open>json.loads\<close>, read at the types
  \<^verbatim>\<open>start_tenant\<close> declares for its arguments: a field is \<open>None\<close> when the key is
  missing (or \<^verbatim>\<open>null\<close>), and \<^verbatim>\<open>env\<close> defaults to the empty dictionary. A handler
  gets \<open>Inl e\<close> when reading or decoding the body raised \<open>e\<close>.
\<close>

record start_request =
  req_pod_id :: "string option"
  req_username :: "string option"
  req_port :: "int option"
  req_env :: "(string \<times> string) list option"

record execute_request =
  req_command :: "string option"

record execute_result =
  returncode :: int
  stdout :: string
  stderr :: string
  success :: bool

datatype error_body = Message string | Exception_text exn

datatype 'a http_response =
    Send_error nat error_body
  | Send_json nat 'a

text \<open>Python's truth value of an optional string and of an optional integer.\<close>

definition truthy_str :: "string option \<Rightarrow> bool" where
  "truthy_str v = (case v of None \<Rightarrow> False | Some s \<Rightarrow> s \<noteq> [])"

definition truthy_int :: "int option \<Rightarrow> bool" where
  "truthy_int v = (case v of None \<Rightarrow> False | Some n \<Rightarrow> n \<noteq> 0)"

definition handle_start_request ::
  "host \<Rightarrow> exn + start_request \<Rightarrow> world \<Rightarrow> start_result http_response \<times> world" where
  "handle_start_request h parsed w =
     (case parsed of
        Inl e \<Rightarrow> (Send_error 500 (Exception_text e), w)
      | Inr data \<Rightarrow>
          (let pod_id = req_pod_id data;
               user = req_username data;
               prt = req_port data;
               env_vars = (case req_env data of None \<Rightarrow> [] | Some vars \<Rightarrow> vars)
           in if \<not> (truthy_str pod_id \<and> truthy_str user \<and> truthy_int prt)
              then (Send_error 400 (Message ''POD_ID, POD_USERNAME, and PORT required''), w)
              else (case start_tenant h (the pod_id) (the user) (the prt) env_vars w of
                      (Inl e, w1) \<Rightarrow> (Send_error 500 (Exception_text e), w1)
                    | (Inr result, w1) \<Rightarrow> (Send_json 200 result, w1))))"

text \<open>
  \<^verbatim>\<open>subprocess.run(command, shell=True, capture_output=True, text=True, timeout=t)\<close>,
  as the Python library documents it: a child that is still running when the timeout
  expires is killed and waited for, and \<^verbatim>\<open>TimeoutExpired\<close> is raised.
\<close>

definition subprocess_run ::
  "host \<Rightarrow> string \<Rightarrow> nat \<Rightarrow> world \<Rightarrow> (exn + int \<times> string \<times> string) \<times> world" where
  "subprocess_run h command timeout w =
     (case shell_run h (clock w) command timeout of
        Exited rc out err \<Rightarrow> (Inr (rc, out, err), emit (Run command timeout) w)
      | Exceeded \<Rightarrow> (Inl TimeoutExpired, emit KillChild (emit (Run command timeout) w))
      | Raised e \<Rightarrow> (Inl e, emit (Run command timeout) w))"

definition handle_execute_request ::
  "host \<Rightarrow> exn + execute_request \<Rightarrow> world \<Rightarrow> execute_result http_response \<times> world" where
  "handle_execute_request h parsed w =
     (case parsed of
        Inl e \<Rightarrow> (Send_error 500 (Exception_text e), w)
      | Inr data \<Rightarrow>
          (let command = req_command data
           in if \<not> truthy_str command then (Send_error 400 (Message ''command required''), w)
              else (case subprocess_run h (the command) 300 w of
                      (Inl e, w1) \<Rightarrow>
                        if e = TimeoutExpired then (Send_error 408 (Message ''Command timeout''), w1)
                        else (Send_error 500 (Exception_text e), w1)
                    | (Inr (rc, out, err), w1) \<Rightarrow>
                        (Send_json (if rc = 0 then 200 else 500)
                           \<lparr>returncode = rc, stdout = out, stderr = err, success = (rc = 0)\<rparr>,
                         w1))))"

subsection \<open>Notions used by the properties\<close>

text \<open>A host call that starts a process.\<close>

fun is_spawn :: "event \<Rightarrow> bool" where
  "is_spawn (Popen cmd tenant_env) = True"
| "is_spawn e = False"

text \<open>
  A host on which the signalling calls raise nothing but \<^verbatim>\<open>ProcessLookupError\<close>: the
  supervisor is allowed to signal the process groups it looks up, and the only failure is
  that the process is gone.
\<close>

definition lookup_errors_only :: "host \<Rightarrow> bool" where
  "lookup_errors_only h =
     ((\<forall>t p e. getpgid h t p = Inl e \<longrightarrow> e = ProcessLookupError) \<and>
      (\<forall>t g s e. killpg h t g s = Some e \<longrightarrow> e = ProcessLookupError))"

text \<open>The success class of HTTP status codes, 2xx, in the words of the specification.\<close>

definition spec_success_class :: "int \<Rightarrow> bool" where
  "spec_success_class status_code = (200 \<le> status_code \<and> status_code < 300)"

subsection \<open>A sample host and sample records\<close>

definition tenant_a :: process_info where
  "tenant_a = \<lparr>pid = 4242, port = 8188, username = ''alice'',
               network_volume = ''/workspace/pod-a'', started_at = 1700000000, env = []\<rparr>"

definition tenant_b :: process_info where
  "tenant_b = \<lparr>pid = 4300, port = 8189, username = ''bob'',
               network_volume = ''/workspace/pod-b'', started_at = 1700000100, env = []\<rparr>"

text \<open>A compact rendering of a registry, standing for the text \<^verbatim>\<open>json.dump\<close> writes.\<close>

definition render_info :: "tenant_id \<times> process_info \<Rightarrow> string" where
  "render_info kv =
     ''\"'' @ fst kv @ ''\": {\"pid\": '' @ str (pid (snd kv)) @ '', \"port\": '' @ str (port (snd kv)) @
     '', \"username\": \"'' @ username (snd kv) @ ''\", \"network_volume\": \"'' @ network_volume (snd kv) @
     ''\", \"started_at\": '' @ str (started_at (snd kv)) @ '', \"env\": {}}''"

fun render_items :: "registry \<Rightarrow> string" where
  "render_items [] = []"
| "render_items [kv] = render_info kv"
| "render_items (kv # rest) = render_info kv @ '', '' @ render_items rest"

definition render_registry :: "registry \<Rightarrow> string" where
  "render_registry r = ''{'' @ render_items r @ ''}''"

text \<open>
  The sample host: no pid exists, every port answers with status 200, every file
  operation succeeds, a spawned process gets pid 5000, and the JSON library reads back
  the rendering of the registry \<open>known\<close>.
\<close>

definition sample_host :: "registry \<Rightarrow> host" where
  "sample_host known =
     \<lparr>pid_exists = (\<lambda>t p. False),
      getpgid = (\<lambda>t p. Inr p),
      killpg = (\<lambda>t g s. None),
      connect_ex = (\<lambda>t hostname prt timeout. Inr 0),
      requests_get = (\<lambda>t prt timeout. Inr 200),
      makedirs = (\<lambda>t path. None),
      tenant_scripts = (\<lambda>t path. None),
      popen = (\<lambda>t cmd tenant_env. Inr 5000),
      time_now = (\<lambda>t. 1700000200 + int t),
      environ = [(''PATH'', ''/usr/bin'')],
      fs_write = (\<lambda>t. Write_ok),
      fs_read = (\<lambda>t. None),
      shell_run = (\<lambda>t command timeout. Exited 0 [] []),
      json_dump = render_registry,
      json_load = (\<lambda>s. if s = render_registry known then Inr known else Inl JSONDecodeError)\<rparr>"

definition sample_world :: "registry \<Rightarrow> world" where
  "sample_world r = \<lparr>processes = r, disk = None, trace = [], clock = 0\<rparr>"

section \<open>Properties\<close>

subsection \<open>State left alone by the host calls\<close>

lemma map_of_delete_self: "map_of (AList.delete k al) k = None"
  by (simp add: AList.delete_conv')

lemma processes_tick [simp]: "processes (tick w) = processes w"
  and disk_tick [simp]: "disk (tick w) = disk w"
  and trace_tick [simp]: "trace (tick w) = trace w"
  and clock_tick [simp]: "clock (tick w) = Suc (clock w)"
  by (simp_all add: tick_def)

lemma processes_emit [simp]: "processes (emit e w) = processes w"
  and disk_emit [simp]: "disk (emit e w) = disk w"
  and trace_emit [simp]: "trace (emit e w) = trace w @ [e]"
  and clock_emit [simp]: "clock (emit e w) = Suc (clock w)"
  by (simp_all add: emit_def)

lemma processes_save_processes [simp]: "processes (save_processes h w) = processes w"
  and trace_save_processes [simp]: "trace (save_processes h w) = trace w"
  and clock_save_processes [simp]: "clock (save_processes h w) = Suc (clock w)"
  by (simp_all add: save_processes_def split: write_outcome.splits)

lemma snd_except_lookup [simp]: "snd (except_lookup r) = snd r"
  by (cases r) (auto simp: except_lookup_def split: sum.splits)

lemma except_lookup_not_lookup: "fst (except_lookup r) \<noteq> Inl ProcessLookupError"
  by (cases r) (auto simp: except_lookup_def split: sum.splits)

lemma processes_remove_record [simp]:
  "processes (remove_record h k w) = AList.delete k (processes w)"
  and trace_remove_record [simp]: "trace (remove_record h k w) = trace w"
  by (simp_all add: remove_record_def)

subsection \<open>Health prober\<close>

lemma is_comfyui_healthy_eq:
  "is_comfyui_healthy h prt timeout w =
     (if connect_ex h (clock w) ''localhost'' prt 2 = Inr 0
      then (requests_get h (Suc (clock w)) prt timeout = Inr 200,
            w\<lparr>trace := trace w @ [Connect ''localhost'' prt 2, HttpGet prt timeout],
              clock := Suc (Suc (clock w))\<rparr>)
      else (False,
            w\<lparr>trace := trace w @ [Connect ''localhost'' prt 2], clock := Suc (clock w)\<rparr>))"
  by (auto simp: is_comfyui_healthy_def is_port_open_def emit_def split: sum.splits)

lemma is_comfyui_healthy_trace:
  "processes (snd (is_comfyui_healthy h prt timeout w)) = processes w \<and>
   disk (snd (is_comfyui_healthy h prt timeout w)) = disk w \<and>
   (\<exists>probes. trace (snd (is_comfyui_healthy h prt timeout w)) = trace w @ probes \<and>
      filter is_spawn probes = [])"
  by (auto simp: is_comfyui_healthy_def is_port_open_def Let_def split: sum.splits)

text \<open>
  C5 (as amended). The probe first connects to \<^verbatim>\<open>localhost\<close> on the port with a
  2-second timeout; when that fails (a non-zero error number or an exception) it answers
  \<open>False\<close> and makes no HTTP request. Otherwise it requests the service root with a
  5-second timeout and answers \<open>True\<close> exactly when the response has status 200: an
  exception (network error, timeout) and every other status, the other 2xx codes
  included, give \<open>False\<close>. The probe has two answers; the two ways to fail differ only
  in the calls made.
\<close>

theorem is_comfyui_healthy_only_on_200:
  "is_comfyui_healthy h prt 5 w =
     (if connect_ex h (clock w) ''localhost'' prt 2 = Inr 0
      then (requests_get h (Suc (clock w)) prt 5 = Inr 200,
            w\<lparr>trace := trace w @ [Connect ''localhost'' prt 2, HttpGet prt 5],
              clock := Suc (Suc (clock w))\<rparr>)
      else (False,
            w\<lparr>trace := trace w @ [Connect ''localhost'' prt 2], clock := Suc (clock w)\<rparr>))"
  by (rule is_comfyui_healthy_eq)

text \<open>
  C5 as stated fails: status 204 is in the success class, the port is open, and the
  probe does not report the service healthy.
\<close>

theorem success_class_204_not_healthy:
  "spec_success_class 204 \<and>
   connect_ex ((sample_host [])\<lparr>requests_get := (\<lambda>t prt timeout. Inr 204)\<rparr>) 0 ''localhost'' 8188 2 = Inr 0 \<and>
   requests_get ((sample_host [])\<lparr>requests_get := (\<lambda>t prt timeout. Inr 204)\<rparr>) 1 8188 5 = Inr 204 \<and>
   \<not> fst (is_comfyui_healthy ((sample_host [])\<lparr>requests_get := (\<lambda>t prt timeout. Inr 204)\<rparr>) 8188 5
            (sample_world []))"
  by (simp add: spec_success_class_def is_comfyui_healthy_def is_port_open_def emit_def
      sample_host_def sample_world_def)

subsection \<open>Process registry\<close>

text \<open>
  C3 (as amended). \<^verbatim>\<open>save_processes\<close> writes the full record set into the registry
  file itself: there is no temporary file and no rename. A save that completes leaves the
  dump of the new record set in the file. A crash before the file is opened leaves the
  file as it was; a crash after that leaves the first \<open>k\<close> characters of the new dump,
  which is not the new record set as long as \<open>k\<close> is less than the length of the dump.
\<close>

theorem save_processes_in_place:
  "(fs_write h (clock w) = Write_ok \<longrightarrow>
      disk (save_processes h w) = Some (json_dump h (processes w))) \<and>
   save_crash h w 0 = disk w \<and>
   (k < length (json_dump h (processes w)) \<longrightarrow>
      save_crash h w (Suc k) = Some (take k (json_dump h (processes w))) \<and>
      save_crash h w (Suc k) \<noteq> Some (json_dump h (processes w))) \<and>
   (length (json_dump h (processes w)) \<le> k \<longrightarrow>
      save_crash h w (Suc k) = Some (json_dump h (processes w)))"
proof -
  have "take k s \<noteq> s" if "k < length s" for s :: string
  proof
    assume "take k s = s"
    then have "length (take k s) = length s" by simp
    with that show False by simp
  qed
  then show ?thesis
    by (simp add: save_processes_def tick_def)
qed

theorem save_processes_in_place_witness:
  "disk (save_processes (sample_host []) (sample_world [])) = Some ''{}'' \<and>
   save_crash (sample_host []) (sample_world []) 0 = None \<and>
   save_crash (sample_host []) (sample_world []) 1 = Some [] \<and>
   save_crash (sample_host []) (sample_world []) 2 = Some ''{'' \<and>
   save_crash (sample_host []) (sample_world []) 3 = Some ''{}''"
proof -
  have dump: "json_dump (sample_host []) (processes (sample_world [])) = ''{}''"
    by (simp add: sample_host_def sample_world_def render_registry_def)
  have ok: "fs_write (sample_host []) (clock (sample_world [])) = Write_ok"
    by (simp add: sample_host_def)
  have none: "disk (sample_world []) = None"
    by (simp add: sample_world_def)
  from save_processes_in_place[where h = "sample_host []" and w = "sample_world []" and k = 0]
       save_processes_in_place[where h = "sample_host []" and w = "sample_world []" and k = 1]
       save_processes_in_place[where h = "sample_host []" and w = "sample_world []" and k = 2]
  show ?thesis
    unfolding dump using ok none by (simp add: numeral_2_eq_2 numeral_3_eq_3)
qed

text \<open>
  C3 as stated fails: the file holds the dump of one record, the registry in memory holds
  two, and the supervisor dies right after \<^verbatim>\<open>open(file, 'w')\<close>. The file is then
  empty: it holds neither the old nor the new record set, and loading it gives an empty
  registry.
\<close>

theorem crash_after_open_leaves_empty_file:
  "disk \<lparr>processes = [(''pod-a'', tenant_a), (''pod-b'', tenant_b)],
         disk = Some (render_registry [(''pod-a'', tenant_a)]), trace = [], clock = 0\<rparr> =
     Some (json_dump (sample_host [(''pod-a'', tenant_a)]) [(''pod-a'', tenant_a)]) \<and>
   save_crash (sample_host [(''pod-a'', tenant_a)])
     \<lparr>processes = [(''pod-a'', tenant_a), (''pod-b'', tenant_b)],
      disk = Some (render_registry [(''pod-a'', tenant_a)]), trace = [], clock = 0\<rparr> 1 = Some [] \<and>
   Some [] \<noteq> Some (json_dump (sample_host [(''pod-a'', tenant_a)]) [(''pod-a'', tenant_a)]) \<and>
   Some [] \<noteq> Some (json_dump (sample_host [(''pod-a'', tenant_a)])
                      [(''pod-a'', tenant_a), (''pod-b'', tenant_b)]) \<and>
   processes (load_processes (sample_host [(''pod-a'', tenant_a)])
     \<lparr>processes = [], disk = Some [], trace = [], clock = 0\<rparr>) = []"
  by (simp add: sample_host_def render_registry_def load_processes_def)


lemma dead_pods_stable:
  assumes "\<forall>t p. pid_exists h t p = alive p"
  shows "fst (dead_pods h r c) = map fst (filter (\<lambda>kv. pid (snd kv) \<noteq> 0 \<and> \<not> alive (pid (snd kv))) r)"
  using assms
  by (induction r arbitrary: c) (auto simp: case_prod_beta)

lemma fold_delete: "fold AList.delete ks r = filter (\<lambda>kv. fst kv \<notin> set ks) r"
  by (induction ks arbitrary: r) (auto simp: AList.delete_eq case_prod_beta intro: filter_cong)

lemma filter_keys_distinct:
  assumes "distinct (map fst r)"
  shows "filter (\<lambda>kv. fst kv \<notin> set (map fst (filter P r))) r = filter (\<lambda>kv. \<not> P kv) r"
proof (rule filter_cong[OF refl])
  fix kv assume kv: "kv \<in> set r"
  have "fst kv \<in> set (map fst (filter P r)) \<longleftrightarrow> P kv"
  proof
    assume "fst kv \<in> set (map fst (filter P r))"
    then obtain kv' where kv': "kv' \<in> set r" "P kv'" "fst kv' = fst kv"
      by auto
    from assms kv kv'(1,3) have "kv' = kv"
      by (metis eq_key_imp_eq_value prod.collapse)
    with kv'(2) show "P kv" by simp
  next
    assume "P kv"
    with kv show "fst kv \<in> set (map fst (filter P r))" by auto
  qed
  then show "(fst kv \<notin> set (map fst (filter P r))) = (\<not> P kv)" by simp
qed

lemma cleanup_dead_processes_stable:
  assumes "\<forall>t p. pid_exists h t p = alive p" and "distinct (map fst (processes w))"
  shows "processes (cleanup_dead_processes h w) =
           filter (\<lambda>kv. pid (snd kv) = 0 \<or> alive (pid (snd kv))) (processes w)"
proof -
  let ?dead = "\<lambda>kv. pid (snd kv) \<noteq> 0 \<and> \<not> alive (pid (snd kv))"
  obtain ds c where dp: "dead_pods h (processes w) (clock w) = (ds, c)"
    by (cases "dead_pods h (processes w) (clock w)")
  with dead_pods_stable[OF assms(1), of "processes w" "clock w"]
  have ds: "ds = map fst (filter ?dead (processes w))" by simp
  have "processes (cleanup_dead_processes h w) = fold AList.delete ds (processes w)"
    using dp by (simp add: cleanup_dead_processes_def Let_def)
  also have "\<dots> = filter (\<lambda>kv. \<not> ?dead kv) (processes w)"
    unfolding fold_delete ds by (rule filter_keys_distinct[OF assms(2)])
  finally show ?thesis by simp
qed


lemma map_of_filter_distinct:
  assumes "distinct (map fst r)" and "(k, i) \<in> set r"
  shows "map_of (filter P r) k = (if P (k, i) then Some i else None)"
proof (cases "P (k, i)")
  case True
  from assms(1) have "distinct (map fst (filter P r))"
    by (simp add: distinct_map_filter)
  moreover from True assms(2) have "(k, i) \<in> set (filter P r)" by simp
  ultimately show ?thesis using True by simp
next
  case False
  have "k \<notin> fst ` set (filter P r)"
  proof
    assume "k \<in> fst ` set (filter P r)"
    then obtain j where j: "(k, j) \<in> set r" "P (k, j)" by auto
    from assms j(1) have "j = i" by (metis eq_key_imp_eq_value)
    with j(2) False show False by simp
  qed
  then show ?thesis using False by (simp add: map_of_eq_None_iff)
qed




lemma classify_pods:
  "map ti_pod_id (fst (classify h r w)) = map fst r \<and>
   map ti_pid (fst (classify h r w)) = map (\<lambda>kv. pid (snd kv)) r \<and>
   processes (snd (classify h r w)) = processes w \<and>
   disk (snd (classify h r w)) = disk w"
proof (induction r arbitrary: w)
  case Nil
  then show ?case by simp
next
  case (Cons kv r)
  obtain k i where kv: "kv = (k, i)" by (cases kv)
  let ?w1 = "tick w"
  let ?c = "if pid_exists h (clock w) (pid i) \<and> port i \<noteq> 0
            then is_comfyui_healthy h (port i) 5 ?w1 else (False, ?w1)"
  have c: "processes (snd ?c) = processes w" "disk (snd ?c) = disk w"
    using is_comfyui_healthy_trace[of h "port i" 5 ?w1] by auto
  from Cons.IH[of "tick (snd ?c)"] c show ?case
    by (auto simp: kv psutil_pid_exists_def time_time_def case_prod_beta Let_def)
qed

lemma classify_status_stable:
  assumes "\<forall>t p. pid_exists h t p = alive p"
  shows "\<forall>t\<in>set (fst (classify h r w)). (ti_status t = Dead) = (\<not> alive (ti_pid t))"
  using assms
proof (induction r arbitrary: w)
  case Nil
  then show ?case by simp
next
  case (Cons kv r)
  obtain k i where kv: "kv = (k, i)" by (cases kv)
  from Cons show ?case
    by (auto simp: kv psutil_pid_exists_def time_time_def case_prod_beta Let_def)
qed


lemma get_tenant_info_stable:
  assumes "\<forall>t p. pid_exists h t p = alive p" and "distinct (map fst (processes w))"
  shows "processes (snd (get_tenant_info h w)) =
           filter (\<lambda>kv. pid (snd kv) = 0 \<or> alive (pid (snd kv))) (processes w) \<and>
         map ti_pod_id (fst (get_tenant_info h w)) =
           map fst (filter (\<lambda>kv. pid (snd kv) = 0 \<or> alive (pid (snd kv))) (processes w)) \<and>
         (\<forall>t\<in>set (fst (get_tenant_info h w)). ti_status t = Dead \<longrightarrow> ti_pid t = 0)"
proof -
  let ?keep = "\<lambda>kv. pid (snd kv) = 0 \<or> alive (pid (snd kv))"
  let ?w0 = "cleanup_dead_processes h w"
  have w0: "processes ?w0 = filter ?keep (processes w)"
    by (rule cleanup_dead_processes_stable[OF assms])
  have g: "get_tenant_info h w = classify h (processes ?w0) ?w0"
    by (simp add: get_tenant_info_def Let_def)
  note cl = classify_pods[of h "processes ?w0" ?w0]
  have dead: "ti_pid t = 0" if "t \<in> set (fst (get_tenant_info h w))" "ti_status t = Dead" for t
  proof -
    from that classify_status_stable[OF assms(1), of "processes ?w0" ?w0]
    have "\<not> alive (ti_pid t)" by (simp add: g)
    moreover from that(1) have "ti_pid t \<in> set (map ti_pid (fst (classify h (processes ?w0) ?w0)))"
      by (simp add: g)
    then have "ti_pid t \<in> set (map (\<lambda>kv. pid (snd kv)) (processes ?w0))"
      using cl by (simp only:)
    then obtain kv where "kv \<in> set (filter ?keep (processes w))" "ti_pid t = pid (snd kv)"
      unfolding w0 by auto
    ultimately show ?thesis by auto
  qed
  from cl dead show ?thesis by (simp add: g w0)
qed


text \<open>
  C4 (as amended). During two successive calls of \<^verbatim>\<open>get_tenant_info\<close> a pid exists
  exactly when \<open>alive\<close> says so. A record with a non-zero pid that does not exist is
  removed by the sweep that opens the first call: that call does not report it at all,
  and neither the registry nor the second call's report has it afterwards. A record whose
  pid exists is kept by both sweeps, unchanged, and is reported by both calls. The sweep
  itself (which a load runs too) keeps exactly the records whose pid exists. No record
  with a non-zero pid is reported as \<open>Dead\<close>, and each call reports exactly the
  records its sweep has left in the registry, in their order.
\<close>

theorem get_tenant_info_sweeps_first:
  assumes "\<forall>t p. pid_exists h t p = alive p" and "distinct (map fst (processes w))"
    and "(pod_id, info) \<in> set (processes w)" and "pid info \<noteq> 0"
    and "first = get_tenant_info h w" and "second = get_tenant_info h (snd first)"
  shows "(\<not> alive (pid info) \<longrightarrow>
            pod_id \<notin> set (map ti_pod_id (fst first)) \<and>
            map_of (processes (snd first)) pod_id = None \<and>
            pod_id \<notin> set (map ti_pod_id (fst second)) \<and>
            map_of (processes (snd second)) pod_id = None) \<and>
         (alive (pid info) \<longrightarrow>
            map_of (processes (snd first)) pod_id = Some info \<and>
            map_of (processes (snd second)) pod_id = Some info \<and>
            pod_id \<in> set (map ti_pod_id (fst first)) \<and>
            pod_id \<in> set (map ti_pod_id (fst second))) \<and>
         map_of (processes (cleanup_dead_processes h w)) pod_id =
           (if alive (pid info) then Some info else None) \<and>
         (\<forall>t\<in>set (fst first). ti_status t = Dead \<longrightarrow> ti_pid t = 0) \<and>
         map ti_pod_id (fst first) = map fst (processes (snd first)) \<and>
         map ti_pod_id (fst second) = map fst (processes (snd second))"
proof -
  let ?keep = "\<lambda>kv. pid (snd kv) = 0 \<or> alive (pid (snd kv))"
  let ?r1 = "filter ?keep (processes w)"
  from get_tenant_info_stable[OF assms(1,2)] assms(5)
  have p1: "processes (snd first) = ?r1"
    and l1: "map ti_pod_id (fst first) = map fst ?r1"
    and dead: "\<forall>t\<in>set (fst first). ti_status t = Dead \<longrightarrow> ti_pid t = 0"
    by simp_all
  have d1: "distinct (map fst (processes (snd first)))"
    unfolding p1 using assms(2) by (rule distinct_map_filter)
  have again: "filter ?keep ?r1 = ?r1"
    by simp
  from get_tenant_info_stable[OF assms(1) d1] assms(6)
  have p2: "processes (snd second) = ?r1"
    and l2: "map ti_pod_id (fst second) = map fst ?r1"
    unfolding p1 again by simp_all
  have m: "map_of ?r1 pod_id = (if alive (pid info) then Some info else None)"
    using map_of_filter_distinct[OF assms(2,3), of ?keep] assms(4) by simp
  have "(pod_id \<in> fst ` set ?r1) = (map_of ?r1 pod_id \<noteq> None)"
    by (simp only: map_of_eq_None_iff not_not)
  also have "\<dots> = alive (pid info)"
    by (simp only: m) simp
  finally have dom: "(pod_id \<in> set (map fst ?r1)) = alive (pid info)"
    by (simp only: set_map)
  have c: "map_of (processes (cleanup_dead_processes h w)) pod_id =
      (if alive (pid info) then Some info else None)"
    by (simp only: cleanup_dead_processes_stable[OF assms(1,2)] m)
  show ?thesis
    unfolding p1 p2 l1 l2 dom m using c dead by simp
qed



theorem get_tenant_info_sweeps_first_witness:
  "map_of (processes (snd (get_tenant_info ((sample_host [])\<lparr>pid_exists := (\<lambda>t p. p = 4300)\<rparr>)
      (sample_world [(''pod-a'', tenant_a), (''pod-b'', tenant_b)])))) ''pod-a'' = None \<and>
   ''pod-a'' \<notin> set (map ti_pod_id (fst (get_tenant_info ((sample_host [])\<lparr>pid_exists := (\<lambda>t p. p = 4300)\<rparr>)
      (sample_world [(''pod-a'', tenant_a), (''pod-b'', tenant_b)])))) \<and>
   map_of (processes (snd (get_tenant_info ((sample_host [])\<lparr>pid_exists := (\<lambda>t p. p = 4300)\<rparr>)
      (sample_world [(''pod-a'', tenant_a), (''pod-b'', tenant_b)])))) ''pod-b'' = Some tenant_b \<and>
   ''pod-b'' \<in> set (map ti_pod_id (fst (get_tenant_info ((sample_host [])\<lparr>pid_exists := (\<lambda>t p. p = 4300)\<rparr>)
      (sample_world [(''pod-a'', tenant_a), (''pod-b'', tenant_b)]))))"
proof -
  let ?h = "(sample_host [])\<lparr>pid_exists := (\<lambda>t p. p = 4300)\<rparr>"
  let ?w = "sample_world [(''pod-a'', tenant_a), (''pod-b'', tenant_b)]"
  have stable: "\<forall>t p. pid_exists ?h t p = (p = 4300)"
    by (simp add: sample_host_def)
  have keys: "distinct (map fst (processes ?w))"
    by (simp add: sample_world_def)
  have a: "(''pod-a'', tenant_a) \<in> set (processes ?w)" "pid tenant_a \<noteq> 0"
    and b: "(''pod-b'', tenant_b) \<in> set (processes ?w)" "pid tenant_b \<noteq> 0"
    by (simp_all add: sample_world_def tenant_a_def tenant_b_def)
  have dead: "\<not> pid tenant_a = 4300" and live: "pid tenant_b = 4300"
    by (simp_all add: tenant_a_def tenant_b_def)
  from get_tenant_info_sweeps_first[OF stable keys a refl refl] dead
  have "map_of (processes (snd (get_tenant_info ?h ?w))) ''pod-a'' = None \<and>
      ''pod-a'' \<notin> set (map ti_pod_id (fst (get_tenant_info ?h ?w)))"
    by blast
  moreover from get_tenant_info_sweeps_first[OF stable keys b refl refl] live
  have "map_of (processes (snd (get_tenant_info ?h ?w))) ''pod-b'' = Some tenant_b \<and>
      ''pod-b'' \<in> set (map ti_pod_id (fst (get_tenant_info ?h ?w)))"
    by blast
  ultimately show ?thesis by blast
qed

lemma sample_sweep:
  "cleanup_dead_processes (sample_host []) (sample_world [(''pod-a'', tenant_a)]) =
     \<lparr>processes = [], disk = Some (render_registry []), trace = [], clock = 2\<rparr>"
  by (simp add: cleanup_dead_processes_def save_processes_def
      sample_host_def sample_world_def tenant_a_def tick_def AList.delete_eq)

lemma sample_list_dead:
  "get_tenant_info (sample_host []) (sample_world [(''pod-a'', tenant_a)]) =
     ([], \<lparr>processes = [], disk = Some (render_registry []), trace = [], clock = 2\<rparr>)"
  by (simp add: get_tenant_info_def sample_sweep)

text \<open>
  C4 as stated fails: the tenant's pid does not exist when \<^verbatim>\<open>get_tenant_info\<close> is
  called; the call reports no tenant, so the record is not reported as dead even once, and
  the record is already gone from the registry when the call returns.
\<close>

theorem dead_record_is_not_reported:
  "map_of (processes (sample_world [(''pod-a'', tenant_a)])) ''pod-a'' = Some tenant_a \<and>
   \<not> pid_exists (sample_host []) (clock (sample_world [(''pod-a'', tenant_a)])) (pid tenant_a) \<and>
   length (filter (\<lambda>t. ti_pod_id t = ''pod-a'' \<and> ti_status t = Dead)
     (fst (get_tenant_info (sample_host []) (sample_world [(''pod-a'', tenant_a)])))) = 0 \<and>
   processes (snd (get_tenant_info (sample_host []) (sample_world [(''pod-a'', tenant_a)]))) = []"
  by (simp add: sample_list_dead) (simp add: sample_host_def sample_world_def)

subsection \<open>Stopping a tenant\<close>

text \<open>
  The polling loop makes at most \<open>n\<close> rounds; it sleeps one second after every round
  in which the pid existed and stops at the first round in which it did not.
\<close>

lemma wait_for_exit_polls:
  "\<exists>k\<le>n. trace (wait_for_exit h p n w) = trace w @ replicate k (Sleep 1) \<and>
          clock (wait_for_exit h p n w) = clock w + 2 * k + (if k < n then 1 else 0) \<and>
          (\<forall>j<k. pid_exists h (clock w + 2 * j) p) \<and>
          (k < n \<longrightarrow> \<not> pid_exists h (clock w + 2 * k) p) \<and>
          processes (wait_for_exit h p n w) = processes w \<and>
          disk (wait_for_exit h p n w) = disk w"
proof (induction n arbitrary: w)
  case 0
  then show ?case by simp
next
  case (Suc n)
  show ?case
  proof (cases "pid_exists h (clock w) p")
    case False
    then show ?thesis by (intro exI[of _ 0]) simp
  next
    case True
    let ?w = "time_sleep 1 (tick w)"
    from Suc.IH[of ?w] obtain k where k: "k \<le> n"
      "trace (wait_for_exit h p n ?w) = trace ?w @ replicate k (Sleep 1)"
      "clock (wait_for_exit h p n ?w) = clock ?w + 2 * k + (if k < n then 1 else 0)"
      "\<forall>j<k. pid_exists h (clock ?w + 2 * j) p"
      "k < n \<longrightarrow> \<not> pid_exists h (clock ?w + 2 * k) p"
      "processes (wait_for_exit h p n ?w) = processes ?w"
      "disk (wait_for_exit h p n ?w) = disk ?w"
      by blast
    have polls: "\<forall>j<Suc k. pid_exists h (clock w + 2 * j) p"
    proof (intro allI impI)
      fix j assume "j < Suc k"
      show "pid_exists h (clock w + 2 * j) p"
      proof (cases j)
        case 0
        with True show ?thesis by simp
      next
        case (Suc i)
        with \<open>j < Suc k\<close> k(4) have "pid_exists h (clock ?w + 2 * i) p" by simp
        with Suc show ?thesis by (simp add: time_sleep_def)
      qed
    qed
    show ?thesis
      using True k polls
      by (intro exI[of _ "Suc k"]) (simp add: time_sleep_def replicate_append_same)
  qed
qed


lemma processes_wait_for_exit [simp]: "processes (wait_for_exit h p n w) = processes w"
  by (induction n arbitrary: w) (simp_all add: time_sleep_def)

lemma disk_wait_for_exit [simp]: "disk (wait_for_exit h p n w) = disk w"
  by (induction n arbitrary: w) (simp_all add: time_sleep_def)

lemma graceful_shutdown_signalled:
  assumes "getpgid h (clock w) p = Inr g" and "killpg h (Suc (clock w)) g SIGTERM = None"
  shows "graceful_shutdown h p w =
           (let w2 = wait_for_exit h p 30 (emit (Killpg g SIGTERM) (tick w))
            in if pid_exists h (clock w2) p
               then seq (os_getpgid h p)
                      (\<lambda>g'. seq (os_killpg h g' SIGKILL) (\<lambda>_ w3. (Inr (), time_sleep 2 w3)))
                      (tick w2)
               else (Inr (), tick w2))"
  using assms
  by (simp add: graceful_shutdown_def seq_def os_getpgid_def os_killpg_def psutil_pid_exists_def
      Let_def)

lemma sigkill_step_trace:
  "\<exists>tail. trace (snd (seq (os_getpgid h p)
                 (\<lambda>g'. seq (os_killpg h g' SIGKILL) (\<lambda>_ w3. (Inr (), time_sleep n w3))) w)) =
             trace w @ tail \<and>
          (tail = [] \<or> (\<exists>g'. tail = [Killpg g' SIGKILL] \<or> tail = [Killpg g' SIGKILL, Sleep n]))"
  by (auto simp: seq_def os_getpgid_def os_killpg_def time_sleep_def
      split: sum.splits option.splits)

lemma graceful_shutdown_trace:
  assumes "clock w = Suc c"
    and "getpgid h (clock w) p = Inr g" and "killpg h (Suc (clock w)) g SIGTERM = None"
  shows "\<exists>k tail. k \<le> 30 \<and>
           trace (snd (graceful_shutdown h p w)) =
             trace w @ Killpg g SIGTERM # replicate k (Sleep 1) @ tail \<and>
           (\<forall>j<k. pid_exists h (c + 3 + 2 * j) p) \<and>
           (k < 30 \<longrightarrow> \<not> pid_exists h (c + 3 + 2 * k) p) \<and>
           (tail = [] \<or> (\<exists>g'. tail = [Killpg g' SIGKILL] \<or> tail = [Killpg g' SIGKILL, Sleep 2]))"
proof -
  let ?w1 = "emit (Killpg g SIGTERM) (tick w)"
  let ?w2 = "wait_for_exit h p 30 ?w1"
  have c1: "clock ?w1 + 2 * j = c + 3 + 2 * j" for j
    using assms(1) by simp
  from wait_for_exit_polls[of 30 h p ?w1] obtain k where k: "k \<le> 30"
    "trace ?w2 = trace ?w1 @ replicate k (Sleep 1)"
    "\<forall>j<k. pid_exists h (clock ?w1 + 2 * j) p"
    "k < 30 \<longrightarrow> \<not> pid_exists h (clock ?w1 + 2 * k) p"
    by blast
  have polls: "\<forall>j<k. pid_exists h (c + 3 + 2 * j) p"
    and last: "k < 30 \<longrightarrow> \<not> pid_exists h (c + 3 + 2 * k) p"
    using k(3,4) unfolding c1 by blast+
  from sigkill_step_trace[of h p 2 "tick ?w2"] obtain tail where tail:
    "trace (snd (seq (os_getpgid h p)
        (\<lambda>g'. seq (os_killpg h g' SIGKILL) (\<lambda>_ w3. (Inr (), time_sleep 2 w3))) (tick ?w2))) =
      trace (tick ?w2) @ tail"
    "tail = [] \<or> (\<exists>g'. tail = [Killpg g' SIGKILL] \<or> tail = [Killpg g' SIGKILL, Sleep 2])"
    by blast
  show ?thesis
  proof (cases "pid_exists h (clock ?w2) p")
    case True
    then have "trace (snd (graceful_shutdown h p w)) =
        trace w @ Killpg g SIGTERM # replicate k (Sleep 1) @ tail"
      using tail(1) k(2) by (simp add: graceful_shutdown_signalled[OF assms(2,3)] Let_def)
    with k(1) polls last tail(2) show ?thesis
      by blast
  next
    case False
    then have "trace (snd (graceful_shutdown h p w)) =
        trace w @ Killpg g SIGTERM # replicate k (Sleep 1) @ []"
      using k(2) by (simp add: graceful_shutdown_signalled[OF assms(2,3)] Let_def)
    with k(1) polls last show ?thesis
      by blast
  qed
qed

lemma processes_graceful_shutdown [simp]:
  "processes (snd (graceful_shutdown h p w)) = processes w"
  by (auto simp: graceful_shutdown_def seq_def os_getpgid_def os_killpg_def psutil_pid_exists_def
      time_sleep_def Let_def split: sum.splits option.splits prod.splits)

lemma graceful_shutdown_raises:
  assumes "fst (graceful_shutdown h p w) = Inl e"
  shows "(\<exists>t. getpgid h t p = Inl e) \<or> (\<exists>t g s. killpg h t g s = Some e)"
  using assms
  by (auto simp: graceful_shutdown_def seq_def os_getpgid_def os_killpg_def psutil_pid_exists_def
      time_sleep_def Let_def split: sum.splits option.splits prod.splits if_splits)

lemma except_lookup_graceful_shutdown:
  assumes "lookup_errors_only h"
  shows "fst (except_lookup (graceful_shutdown h p w)) = Inr ()"
proof (cases "fst (graceful_shutdown h p w)")
  case (Inl e)
  from graceful_shutdown_raises[OF this] assms have "e = ProcessLookupError"
    by (auto simp: lookup_errors_only_def)
  with Inl show ?thesis
    by (cases "graceful_shutdown h p w") (simp add: except_lookup_def)
next
  case (Inr u)
  then show ?thesis
    by (cases "graceful_shutdown h p w") (simp add: except_lookup_def)
qed

lemma stop_tenant_live:
  assumes "map_of (processes w) pod_id = Some info" and "pid info \<noteq> 0"
    and "pid_exists h (clock w) (pid info)"
  shows "stop_tenant h pod_id w =
           (case fst (except_lookup (graceful_shutdown h (pid info) (tick w))) of
              Inl e \<Rightarrow> (Inl e, snd (graceful_shutdown h (pid info) (tick w)))
            | Inr u \<Rightarrow>
                (Inr Stopped, remove_record h pod_id (snd (graceful_shutdown h (pid info) (tick w)))))"
proof -
  obtain r b where rb: "except_lookup (graceful_shutdown h (pid info) (tick w)) = (r, b)"
    by (cases "except_lookup (graceful_shutdown h (pid info) (tick w))")
  then have "b = snd (graceful_shutdown h (pid info) (tick w))"
    by (metis snd_except_lookup snd_conv)
  with rb assms show ?thesis
    by (simp add: stop_tenant_def psutil_pid_exists_def Let_def split: sum.splits)
qed



lemma sample_stop_polls:
  "stop_tenant ((sample_host [])\<lparr>pid_exists := (\<lambda>t p. p = 4242 \<and> t < 6)\<rparr>) ''pod-a''
          (sample_world [(''pod-a'', tenant_a), (''pod-b'', tenant_b)]) =
   (Inr Stopped,
    \<lparr>processes = [(''pod-b'', tenant_b)], disk = Some (render_registry [(''pod-b'', tenant_b)]),
     trace = [Killpg 4242 SIGTERM, Sleep 1, Sleep 1], clock = 10\<rparr>)"
  by (simp add: stop_tenant_def psutil_pid_exists_def graceful_shutdown_def seq_def os_getpgid_def
      os_killpg_def except_lookup_def remove_record_def save_processes_def time_sleep_def
      sample_host_def sample_world_def tenant_a_def Let_def
      tick_def emit_def AList.delete_eq eval_nat_numeral)




lemma sample_stop_permission_error:
  "stop_tenant ((sample_host [])\<lparr>pid_exists := (\<lambda>t p. True),
                                   killpg := (\<lambda>t g s. Some PermissionError)\<rparr>)
     ''pod-a'' (sample_world [(''pod-a'', tenant_a)]) =
   (Inl PermissionError,
    \<lparr>processes = [(''pod-a'', tenant_a)], disk = None, trace = [Killpg 4242 SIGTERM], clock = 3\<rparr>)"
  by (simp add: stop_tenant_def psutil_pid_exists_def graceful_shutdown_def seq_def os_getpgid_def
      os_killpg_def except_lookup_def sample_host_def sample_world_def tenant_a_def Let_def
      tick_def emit_def)

lemma sample_stop_immortal:
  "trace (snd (stop_tenant ((sample_host [])\<lparr>pid_exists := (\<lambda>t p. True)\<rparr>) ''pod-a''
          (sample_world [(''pod-a'', tenant_a)]))) =
    Killpg 4242 SIGTERM # replicate 30 (Sleep 1) @ [Killpg 4242 SIGKILL, Sleep 2]"
  by (simp add: stop_tenant_def psutil_pid_exists_def graceful_shutdown_def seq_def os_getpgid_def
      os_killpg_def except_lookup_def remove_record_def save_processes_def time_sleep_def
      sample_host_def sample_world_def tenant_a_def Let_def
      tick_def emit_def AList.delete_eq eval_nat_numeral)






subsection \<open>Starting a tenant\<close>

lemma spawn_tenant_success:
  assumes "spawn_tenant h pod_id user prt env_vars w = (Inr r, w')"
  shows "\<exists>new_pid.
           r = Started prt new_pid (tenant_volume pod_id env_vars) \<and>
           popen h (Suc (Suc (clock w))) start_command
             (tenant_environment h pod_id user prt env_vars) = Inr new_pid \<and>
           processes w' =
             AList.update pod_id
               \<lparr>pid = new_pid, port = prt, username = user,
                network_volume = tenant_volume pod_id env_vars,
                started_at = time_now h (Suc (Suc (Suc (clock w)))), env = env_vars\<rparr>
               (processes w) \<and>
           trace w' = trace w @
             [Makedirs (tenant_volume pod_id env_vars), TenantScripts (tenant_volume pod_id env_vars),
              Popen start_command (tenant_environment h pod_id user prt env_vars),
              Cloudwatch pod_id (tenant_volume pod_id env_vars)]"
  using assms
  by (auto simp: spawn_tenant_def seq_def os_makedirs_def setup_tenant_scripts_def
      subprocess_Popen_def time_time_def setup_cloudwatch_logging_def Let_def
      split: sum.splits option.splits prod.splits)

lemma running_healthy_trace:
  "processes (snd (running_healthy h info w)) = processes w \<and>
   (\<exists>probes. trace (snd (running_healthy h info w)) = trace w @ probes \<and>
      filter is_spawn probes = [])"
  using is_comfyui_healthy_trace[of h "port info" 5 "tick w"]
  by (auto simp: running_healthy_def psutil_pid_exists_def Let_def)

lemma force_kill_raises:
  assumes "fst (force_kill h p w) = Inl e"
  shows "(\<exists>t. getpgid h t p = Inl e) \<or> (\<exists>t g s. killpg h t g s = Some e)"
  using assms
  by (auto simp: force_kill_def seq_def os_getpgid_def os_killpg_def psutil_pid_exists_def
      time_sleep_def Let_def split: sum.splits option.splits prod.splits if_splits)

lemma except_lookup_force_kill:
  assumes "lookup_errors_only h"
  shows "fst (except_lookup (force_kill h p w)) = Inr ()"
proof (cases "fst (force_kill h p w)")
  case (Inl e)
  from force_kill_raises[OF this] assms have "e = ProcessLookupError"
    by (auto simp: lookup_errors_only_def)
  with Inl show ?thesis
    by (cases "force_kill h p w") (simp add: except_lookup_def)
next
  case (Inr u)
  then show ?thesis
    by (cases "force_kill h p w") (simp add: except_lookup_def)
qed

lemma force_kill_trace:
  assumes "getpgid h (clock w) p = Inr g"
  shows "processes (snd (force_kill h p w)) = processes w \<and>
         (\<exists>signals. trace (snd (force_kill h p w)) = trace w @ Killpg g SIGTERM # signals \<and>
            (signals = [] \<or> signals = [Sleep 2] \<or>
             (\<exists>g'. signals = [Sleep 2, Killpg g' SIGKILL] \<or>
                   signals = [Sleep 2, Killpg g' SIGKILL, Sleep 1])))"
  using assms
  by (auto simp: force_kill_def seq_def os_getpgid_def os_killpg_def psutil_pid_exists_def
      time_sleep_def Let_def split: sum.splits option.splits prod.splits)

lemma force_kill_no_spawn:
  "processes (snd (force_kill h p w)) = processes w \<and>
   filter is_spawn (trace (snd (force_kill h p w))) = filter is_spawn (trace w)"
  by (auto simp: force_kill_def seq_def os_getpgid_def os_killpg_def psutil_pid_exists_def
      time_sleep_def Let_def split: sum.splits option.splits prod.splits)

lemma force_cleanup_tenant_live:
  assumes "pid info \<noteq> 0" and "pid_exists h (clock w) (pid info)"
    and "getpgid h (Suc (clock w)) (pid info) = Inr g" and "lookup_errors_only h"
  shows "processes (force_cleanup_tenant h pod_id info w) = AList.delete pod_id (processes w) \<and>
         (\<exists>signals. trace (force_cleanup_tenant h pod_id info w) =
              trace w @ Killpg g SIGTERM # signals \<and>
            (signals = [] \<or> signals = [Sleep 2] \<or>
             (\<exists>g'. signals = [Sleep 2, Killpg g' SIGKILL] \<or>
                   signals = [Sleep 2, Killpg g' SIGKILL, Sleep 1])))"
proof -
  let ?fk = "force_kill h (pid info) (tick w)"
  obtain r b where rb: "except_lookup ?fk = (r, b)"
    by (cases "except_lookup ?fk")
  then have b: "b = snd ?fk"
    by (metis snd_except_lookup snd_conv)
  from rb except_lookup_force_kill[OF assms(4), of "pid info" "tick w"] have r: "r = Inr ()"
    by simp
  have fc: "force_cleanup_tenant h pod_id info w =
      (if map_of (processes (snd ?fk)) pod_id \<noteq> None
       then save_processes h ((snd ?fk)\<lparr>processes := AList.delete pod_id (processes (snd ?fk))\<rparr>)
       else snd ?fk)"
    using assms(1,2) rb r b
    by (simp add: force_cleanup_tenant_def psutil_pid_exists_def Let_def)
  from assms(3) have g: "getpgid h (clock (tick w)) (pid info) = Inr g"
    by simp
  note fk = force_kill_trace[OF g]
  have del: "map_of (processes w) pod_id = None \<Longrightarrow> AList.delete pod_id (processes w) = processes w"
    by (simp add: map_of_eq_None_iff)
  show ?thesis
    using fk del by (auto simp: fc)
qed


lemma force_cleanup_tenant_no_spawn:
  "filter is_spawn (trace (force_cleanup_tenant h pod_id info w)) = filter is_spawn (trace w)"
proof -
  let ?fk = "force_kill h (pid info) (tick w)"
  have "snd (except_lookup ?fk) = snd ?fk" by simp
  then obtain r where r: "except_lookup ?fk = (r, snd ?fk)"
    by (cases "except_lookup ?fk") auto
  show ?thesis
    using force_kill_no_spawn[of h "pid info" "tick w"] r
    by (auto simp: force_cleanup_tenant_def psutil_pid_exists_def Let_def split: sum.splits)
qed

lemma update_absent: "k \<notin> fst ` set al \<Longrightarrow> AList.update k v al = al @ [(k, v)]"
  by (induction al) auto

lemma one_record_after_update:
  "length (filter (\<lambda>kv. fst kv = k) (AList.update k v (AList.delete k al))) = 1"
proof -
  have "k \<notin> fst ` set (AList.delete k al)"
    by (rule AList.delete_notin_dom)
  then have "AList.update k v (AList.delete k al) = AList.delete k al @ [(k, v)]"
    by (rule update_absent)
  moreover have "filter (\<lambda>kv. fst kv = k) (AList.delete k al) = []"
    by (auto simp: AList.delete_eq filter_empty_conv)
  ultimately show ?thesis by simp
qed

lemma start_tenant_started:
  assumes "start_tenant h pod_id user prt env_vars w = (Inr (Started q p v), w1)"
  shows "q = prt \<and>
         map_of (processes w1) pod_id =
           Some \<lparr>pid = p, port = prt, username = user, network_volume = v,
                 started_at = started_at (the (map_of (processes w1) pod_id)), env = env_vars\<rparr> \<and>
         length (filter is_spawn (trace w1)) = Suc (length (filter is_spawn (trace w)))"
proof (cases "map_of (processes w) pod_id")
  case None
  with assms have "spawn_tenant h pod_id user prt env_vars w = (Inr (Started q p v), w1)"
    by (simp add: start_tenant_def)
  from spawn_tenant_success[OF this] show ?thesis
    by (auto simp: AList.update_conv' start_command_def)
next
  case (Some info)
  obtain healthy w2 where rh: "running_healthy h info w = (healthy, w2)"
    by (cases "running_healthy h info w")
  let ?c = "force_cleanup_tenant h pod_id info w2"
  from assms Some rh have "spawn_tenant h pod_id user prt env_vars ?c = (Inr (Started q p v), w1)"
    by (auto simp: start_tenant_def split: if_splits)
  from spawn_tenant_success[OF this] obtain new_pid where sp:
    "Started q p v = Started prt new_pid (tenant_volume pod_id env_vars)"
    "processes w1 =
       AList.update pod_id
         \<lparr>pid = new_pid, port = prt, username = user,
          network_volume = tenant_volume pod_id env_vars,
          started_at = time_now h (Suc (Suc (Suc (clock ?c)))), env = env_vars\<rparr> (processes ?c)"
    "trace w1 = trace ?c @
       [Makedirs (tenant_volume pod_id env_vars), TenantScripts (tenant_volume pod_id env_vars),
        Popen start_command (tenant_environment h pod_id user prt env_vars),
        Cloudwatch pod_id (tenant_volume pod_id env_vars)]"
    by blast
  from running_healthy_trace[of h info w] rh obtain probes where
    pr: "trace w2 = trace w @ probes" "filter is_spawn probes = []"
    by auto
  have "filter is_spawn (trace ?c) = filter is_spawn (trace w)"
    using force_cleanup_tenant_no_spawn[of h pod_id info w2] pr by simp
  with sp show ?thesis
    by (auto simp: AList.update_conv')
qed


text \<open>
  C1. When the tenant has a record whose pid exists and whose port (not 0, which is never
  probed) passes the health probe, \<^verbatim>\<open>start_tenant\<close> answers \<open>Already_running\<close>
  with the recorded port and pid; the only host calls are the two of the probe, so no
  process is spawned and no signal is sent, and the registry and its file are unchanged.
  Hence, after a start that answered \<open>Started\<close> with pid \<open>p\<close>, a second start of the
  tenant that finds \<open>p\<close> alive and the port healthy answers \<open>Already_running\<close> with
  that port and pid and leaves the registry as it is, and the two starts together
  spawned one process.
\<close>

theorem start_tenant_idempotent:
  "(map_of (processes w) pod_id = Some info \<and> pid_exists h (clock w) (pid info) \<and>
    port info \<noteq> 0 \<and> fst (is_comfyui_healthy h (port info) 5 (tick w)) \<longrightarrow>
      start_tenant h pod_id user prt env_vars w =
        (Inr (Already_running (port info) (pid info)),
         w\<lparr>trace := trace w @ [Connect ''localhost'' (port info) 2, HttpGet (port info) 5],
           clock := clock w + 3\<rparr>)) \<and>
   (start_tenant h pod_id user prt env_vars w = (Inr (Started q p v), w1) \<and> prt \<noteq> 0 \<and>
    pid_exists h (clock w1) p \<and> fst (is_comfyui_healthy h prt 5 (tick w1)) \<longrightarrow>
      q = prt \<and>
      (\<exists>w2. start_tenant h pod_id user' prt' env_vars' w1 = (Inr (Already_running prt p), w2) \<and>
            processes w2 = processes w1 \<and>
            length (filter is_spawn (trace w2)) = Suc (length (filter is_spawn (trace w)))))"
proof -
  have again: "start_tenant h pod_id u n e x =
        (Inr (Already_running (port i) (pid i)),
         x\<lparr>trace := trace x @ [Connect ''localhost'' (port i) 2, HttpGet (port i) 5],
           clock := clock x + 3\<rparr>)"
    if "map_of (processes x) pod_id = Some i" and "pid_exists h (clock x) (pid i)"
      and "port i \<noteq> 0" and "fst (is_comfyui_healthy h (port i) 5 (tick x))"
    for u n e x i
    using that
    by (simp add: start_tenant_def running_healthy_def psutil_pid_exists_def
        is_comfyui_healthy_eq tick_def split: if_splits)
  have second: "q = prt \<and>
      (\<exists>w2. start_tenant h pod_id user' prt' env_vars' w1 = (Inr (Already_running prt p), w2) \<and>
            processes w2 = processes w1 \<and>
            length (filter is_spawn (trace w2)) = Suc (length (filter is_spawn (trace w))))"
    if first: "start_tenant h pod_id user prt env_vars w = (Inr (Started q p v), w1)"
      and "prt \<noteq> 0" and "pid_exists h (clock w1) p"
      and "fst (is_comfyui_healthy h prt 5 (tick w1))"
  proof -
    let ?i = "\<lparr>pid = p, port = prt, username = user, network_volume = v,
               started_at = started_at (the (map_of (processes w1) pod_id)), env = env_vars\<rparr>"
    from start_tenant_started[OF first] have st: "q = prt" "map_of (processes w1) pod_id = Some ?i"
      "length (filter is_spawn (trace w1)) = Suc (length (filter is_spawn (trace w)))"
      by blast+
    from again[of w1 ?i user' prt' env_vars'] st(2) that(2-4)
    have "start_tenant h pod_id user' prt' env_vars' w1 =
        (Inr (Already_running prt p),
         w1\<lparr>trace := trace w1 @ [Connect ''localhost'' prt 2, HttpGet prt 5],
            clock := clock w1 + 3\<rparr>)"
      by simp
    with st(1,3) show ?thesis by simp
  qed
  from again second show ?thesis by blast
qed


lemma sample_first_start:
  "start_tenant ((sample_host [])\<lparr>pid_exists := (\<lambda>t p. p = 5000)\<rparr>) ''pod-a'' ''alice'' 8188 []
     (sample_world []) =
   (Inr (Started 8188 5000 ''/workspace/pod-a''),
    \<lparr>processes = [(''pod-a'', \<lparr>pid = 5000, port = 8188, username = ''alice'',
                     network_volume = ''/workspace/pod-a'', started_at = 1700000203, env = []\<rparr>)],
     disk = Some (render_registry
                    [(''pod-a'', \<lparr>pid = 5000, port = 8188, username = ''alice'',
                       network_volume = ''/workspace/pod-a'', started_at = 1700000203, env = []\<rparr>)]),
     trace = [Makedirs ''/workspace/pod-a'', TenantScripts ''/workspace/pod-a'',
              Popen start_command
                (tenant_environment ((sample_host [])\<lparr>pid_exists := (\<lambda>t p. p = 5000)\<rparr>)
                   ''pod-a'' ''alice'' 8188 []),
              Cloudwatch ''pod-a'' ''/workspace/pod-a''],
     clock = 6\<rparr>)"
  by (simp add: start_tenant_def spawn_tenant_def seq_def os_makedirs_def setup_tenant_scripts_def
      subprocess_Popen_def time_time_def setup_cloudwatch_logging_def save_processes_def
      tenant_volume_def sample_host_def sample_world_def tick_def emit_def Let_def)

theorem start_tenant_idempotent_witness:
  "start_tenant ((sample_host [])\<lparr>pid_exists := (\<lambda>t p. p = 4242)\<rparr>) ''pod-a'' ''alice'' 8188 []
     (sample_world [(''pod-a'', tenant_a)]) =
     (Inr (Already_running 8188 4242),
      \<lparr>processes = [(''pod-a'', tenant_a)], disk = None,
       trace = [Connect ''localhost'' 8188 2, HttpGet 8188 5], clock = 3\<rparr>) \<and>
   fst (start_tenant ((sample_host [])\<lparr>pid_exists := (\<lambda>t p. p = 5000)\<rparr>) ''pod-a'' ''alice'' 8188 []
          (sample_world [])) = Inr (Started 8188 5000 ''/workspace/pod-a'') \<and>
   fst (start_tenant ((sample_host [])\<lparr>pid_exists := (\<lambda>t p. p = 5000)\<rparr>) ''pod-a'' ''alice'' 8188 []
          (snd (start_tenant ((sample_host [])\<lparr>pid_exists := (\<lambda>t p. p = 5000)\<rparr>) ''pod-a''
                  ''alice'' 8188 [] (sample_world [])))) = Inr (Already_running 8188 5000)"
proof -
  let ?h = "(sample_host [])\<lparr>pid_exists := (\<lambda>t p. p = 4242)\<rparr>"
  let ?h' = "(sample_host [])\<lparr>pid_exists := (\<lambda>t p. p = 5000)\<rparr>"
  let ?w = "sample_world [(''pod-a'', tenant_a)]"
  let ?w1 = "snd (start_tenant ?h' ''pod-a'' ''alice'' 8188 [] (sample_world []))"
  have healthy: "fst (is_comfyui_healthy ?h 8188 5 x)" "fst (is_comfyui_healthy ?h' 8188 5 x)" for x
    by (simp_all add: is_comfyui_healthy_def is_port_open_def sample_host_def)
  have a: "map_of (processes ?w) ''pod-a'' = Some tenant_a \<and> pid_exists ?h (clock ?w) (pid tenant_a) \<and>
      port tenant_a \<noteq> 0 \<and> fst (is_comfyui_healthy ?h (port tenant_a) 5 (tick ?w))"
    using healthy(1) by (simp add: sample_world_def sample_host_def tenant_a_def)
  have b: "start_tenant ?h' ''pod-a'' ''alice'' 8188 [] (sample_world []) =
        (Inr (Started 8188 5000 ''/workspace/pod-a''), ?w1) \<and> (8188::int) \<noteq> 0 \<and>
      pid_exists ?h' (clock ?w1) 5000 \<and> fst (is_comfyui_healthy ?h' 8188 5 (tick ?w1))"
  proof (intro conjI)
    show "start_tenant ?h' ''pod-a'' ''alice'' 8188 [] (sample_world []) =
        (Inr (Started 8188 5000 ''/workspace/pod-a''), ?w1)"
      by (simp add: sample_first_start)
    show "pid_exists ?h' (clock ?w1) 5000"
      by (simp add: sample_host_def)
    show "fst (is_comfyui_healthy ?h' 8188 5 (tick ?w1))"
      by (rule healthy(2))
  qed simp
  from start_tenant_idempotent[where h = ?h and w = ?w and pod_id = "''pod-a''" and info = tenant_a
      and user = "''alice''" and prt = 8188 and env_vars = "[]"] a
  have "start_tenant ?h ''pod-a'' ''alice'' 8188 [] ?w =
      (Inr (Already_running (port tenant_a) (pid tenant_a)),
       ?w\<lparr>trace := trace ?w @ [Connect ''localhost'' (port tenant_a) 2, HttpGet (port tenant_a) 5],
          clock := clock ?w + 3\<rparr>)"
    by blast
  then have first: "start_tenant ?h ''pod-a'' ''alice'' 8188 [] ?w =
     (Inr (Already_running 8188 4242),
      \<lparr>processes = [(''pod-a'', tenant_a)], disk = None,
       trace = [Connect ''localhost'' 8188 2, HttpGet 8188 5], clock = 3\<rparr>)"
    by (simp add: sample_world_def tenant_a_def)
  from start_tenant_idempotent[where h = ?h' and w = "sample_world []" and pod_id = "''pod-a''"
      and user = "''alice''" and prt = 8188 and env_vars = "[]" and q = 8188 and p = 5000
      and v = "''/workspace/pod-a''" and ?w1.0 = ?w1 and user' = "''alice''" and prt' = 8188
      and env_vars' = "[]"] b
  obtain w2 where "start_tenant ?h' ''pod-a'' ''alice'' 8188 [] ?w1 = (Inr (Already_running 8188 5000), w2)"
    by blast
  then have second: "fst (start_tenant ?h' ''pod-a'' ''alice'' 8188 [] ?w1) = Inr (Already_running 8188 5000)"
    by simp
  from b have "fst (start_tenant ?h' ''pod-a'' ''alice'' 8188 [] (sample_world [])) =
      Inr (Started 8188 5000 ''/workspace/pod-a'')"
    by (simp add: sample_first_start)
  with first second show ?thesis by blast
qed



lemma sample_restart:
  "fst (start_tenant ((sample_host [])\<lparr>pid_exists := (\<lambda>t p. p = 4242 \<and> t < 7),
                                         requests_get := (\<lambda>t prt timeout. Inr 503)\<rparr>)
          ''pod-a'' ''alice'' 8188 [] (sample_world [(''pod-a'', tenant_a)])) =
     Inr (Started 8188 5000 ''/workspace/pod-a'')"
  by (simp add: start_tenant_def running_healthy_def is_comfyui_healthy_def is_port_open_def
      force_cleanup_tenant_def force_kill_def except_lookup_def psutil_pid_exists_def
      os_getpgid_def os_killpg_def time_sleep_def
      spawn_tenant_def seq_def os_makedirs_def setup_tenant_scripts_def
      subprocess_Popen_def time_time_def setup_cloudwatch_logging_def save_processes_def
      tenant_volume_def sample_host_def sample_world_def tenant_a_def tick_def emit_def Let_def)

lemma sample_restart_trace:
  "trace (snd (start_tenant ((sample_host [])\<lparr>pid_exists := (\<lambda>t p. p = 4242 \<and> t < 7),
                                         requests_get := (\<lambda>t prt timeout. Inr 503)\<rparr>)
          ''pod-a'' ''alice'' 8188 [] (sample_world [(''pod-a'', tenant_a)]))) =
     [Connect ''localhost'' 8188 2, HttpGet 8188 5, Killpg 4242 SIGTERM, Sleep 2,
      Makedirs ''/workspace/pod-a'', TenantScripts ''/workspace/pod-a'',
      Popen start_command
        (tenant_environment ((sample_host [])\<lparr>pid_exists := (\<lambda>t p. p = 4242 \<and> t < 7),
                                         requests_get := (\<lambda>t prt timeout. Inr 503)\<rparr>)
           ''pod-a'' ''alice'' 8188 []),
      Cloudwatch ''pod-a'' ''/workspace/pod-a'']"
  by (simp add: start_tenant_def running_healthy_def is_comfyui_healthy_def is_port_open_def
      force_cleanup_tenant_def force_kill_def except_lookup_def psutil_pid_exists_def
      os_getpgid_def os_killpg_def time_sleep_def
      spawn_tenant_def seq_def os_makedirs_def setup_tenant_scripts_def
      subprocess_Popen_def time_time_def setup_cloudwatch_logging_def save_processes_def
      tenant_volume_def sample_host_def sample_world_def tenant_a_def tick_def emit_def Let_def)



subsection \<open>Control surface\<close>

lemma clock_is_comfyui_healthy: "clock w < clock (snd (is_comfyui_healthy h prt timeout w))"
  by (simp add: is_comfyui_healthy_eq)

lemma clock_running_healthy: "clock w < clock (snd (running_healthy h info w))"
  using clock_is_comfyui_healthy[of "tick w" h "port info" 5]
  by (auto simp: running_healthy_def psutil_pid_exists_def)

lemma clock_force_kill: "clock w \<le> clock (snd (force_kill h p w))"
  by (auto simp: force_kill_def seq_def os_getpgid_def os_killpg_def psutil_pid_exists_def
      time_sleep_def Let_def split: sum.splits option.splits prod.splits)

lemma clock_force_cleanup_tenant: "clock w \<le> clock (force_cleanup_tenant h pod_id info w)"
proof -
  let ?fk = "force_kill h (pid info) (tick w)"
  have "snd (except_lookup ?fk) = snd ?fk" by simp
  then obtain r where r: "except_lookup ?fk = (r, snd ?fk)"
    by (cases "except_lookup ?fk") auto
  show ?thesis
    using clock_force_kill[of "tick w" h "pid info"] r
    by (auto simp: force_cleanup_tenant_def psutil_pid_exists_def Let_def split: sum.splits)
qed

lemma clock_spawn_tenant: "clock w < clock (snd (spawn_tenant h pod_id user prt env_vars w))"
  by (auto simp: spawn_tenant_def seq_def os_makedirs_def setup_tenant_scripts_def
      subprocess_Popen_def time_time_def setup_cloudwatch_logging_def Let_def
      split: sum.splits option.splits prod.splits)

lemma clock_start_tenant: "clock w < clock (snd (start_tenant h pod_id user prt env_vars w))"
proof (cases "map_of (processes w) pod_id")
  case None
  then show ?thesis
    using clock_spawn_tenant[of w h pod_id user prt env_vars] by (simp add: start_tenant_def)
next
  case (Some info)
  obtain healthy w2 where rh: "running_healthy h info w = (healthy, w2)"
    by (cases "running_healthy h info w")
  with clock_running_healthy[of w h info] have 1: "clock w < clock w2" by simp
  let ?c = "force_cleanup_tenant h pod_id info w2"
  have 2: "clock w2 \<le> clock ?c" by (rule clock_force_cleanup_tenant)
  have 3: "clock ?c < clock (snd (spawn_tenant h pod_id user prt env_vars ?c))"
    by (rule clock_spawn_tenant)
  from Some rh 1 2 3 show ?thesis
    by (simp add: start_tenant_def)
qed

text \<open>
  C10. A start request whose tenant id, username or port is missing or falsy (the empty
  string, port 0) is answered with status 400 and the same message in each case, and
  the supervisor's state is returned as it was. \<^verbatim>\<open>start_tenant\<close> was not reached:
  whatever its arguments, it makes a host call and so changes the state.
\<close>

theorem handle_start_request_rejects_falsy:
  assumes "req_pod_id data = None \<or> req_pod_id data = Some [] \<or>
           req_username data = None \<or> req_username data = Some [] \<or>
           req_port data = None \<or> req_port data = Some 0"
  shows "handle_start_request h (Inr data) w =
           (Send_error 400 (Message ''POD_ID, POD_USERNAME, and PORT required''), w) \<and>
         snd (start_tenant h pod_id user prt env_vars w) \<noteq> w"
proof -
  have "clock (snd (start_tenant h pod_id user prt env_vars w)) \<noteq> clock w"
    using clock_start_tenant[of w h pod_id user prt env_vars] by simp
  then have "snd (start_tenant h pod_id user prt env_vars w) \<noteq> w"
    by auto
  with assms show ?thesis
    by (auto simp: handle_start_request_def truthy_str_def truthy_int_def Let_def)
qed

theorem handle_start_request_rejects_falsy_witness:
  "handle_start_request (sample_host [])
     (Inr \<lparr>req_pod_id = Some ''pod-a'', req_username = Some ''alice'', req_port = Some 0,
           req_env = None\<rparr>)
     (sample_world []) =
   (Send_error 400 (Message ''POD_ID, POD_USERNAME, and PORT required''), sample_world []) \<and>
   handle_start_request (sample_host [])
     (Inr \<lparr>req_pod_id = Some [], req_username = Some ''alice'', req_port = Some 8188,
           req_env = None\<rparr>)
     (sample_world []) =
   (Send_error 400 (Message ''POD_ID, POD_USERNAME, and PORT required''), sample_world []) \<and>
   handle_start_request (sample_host [])
     (Inr \<lparr>req_pod_id = Some ''pod-a'', req_username = Some ''alice'', req_port = None,
           req_env = None\<rparr>)
     (sample_world []) =
   (Send_error 400 (Message ''POD_ID, POD_USERNAME, and PORT required''), sample_world [])"
  using handle_start_request_rejects_falsy
          [where data = "\<lparr>req_pod_id = Some ''pod-a'', req_username = Some ''alice'',
                          req_port = Some 0, req_env = None\<rparr>"
             and h = "sample_host []" and w = "sample_world []"]
        handle_start_request_rejects_falsy
          [where data = "\<lparr>req_pod_id = Some [], req_username = Some ''alice'',
                          req_port = Some 8188, req_env = None\<rparr>"
             and h = "sample_host []" and w = "sample_world []"]
        handle_start_request_rejects_falsy
          [where data = "\<lparr>req_pod_id = Some ''pod-a'', req_username = Some ''alice'',
                          req_port = None, req_env = None\<rparr>"
             and h = "sample_host []" and w = "sample_world []"]
  by simp



end
